theory Spec2Isabelle
  imports Complex_Main "HOL-Library.Monad_Syntax"
begin

section \<open>Arrays\<close>

text \<open>
  The program works on NumPy and JAX arrays of floating point numbers. Pixel values are
  modelled as real numbers: rounding, NaN and infinities are outside the model, and a
  theorem that needs a divisor to be non-zero says so. A two-dimensional array is its shape with a pixel function (row, column), a
  three-dimensional one its shape with a pixel function (band, row, column); only indices
  inside the shape are pixels of the array.
\<close>

record image =
  nrows :: nat
  ncols :: nat
  pix :: "nat \<Rightarrow> nat \<Rightarrow> real"

record stack =
  nbands :: nat
  srows :: nat
  scols :: nat
  spix :: "nat \<Rightarrow> nat \<Rightarrow> nat \<Rightarrow> real"

definition shape2 :: "image \<Rightarrow> nat \<times> nat" where
  "shape2 a = (nrows a, ncols a)"

definition shape3 :: "stack \<Rightarrow> nat \<times> nat \<times> nat" where
  "shape3 a = (nbands a, srows a, scols a)"

text \<open>\<open>a.size\<close>: the number of elements.\<close>

definition size3 :: "stack \<Rightarrow> nat" where
  "size3 a = nbands a * srows a * scols a"

text \<open>\<open>a[b]\<close>: the slice of one band, as the batched map over axis 0 hands it out.\<close>

definition band :: "stack \<Rightarrow> nat \<Rightarrow> image" where
  "band a b = \<lparr>nrows = srows a, ncols = scols a, pix = spix a b\<rparr>"

text \<open>\<open>a.flatten()\<close>, in row-major order.\<close>

definition flatten :: "stack \<Rightarrow> real list" where
  "flatten a =
     concat (map (\<lambda>b. concat (map (\<lambda>i. map (\<lambda>j. spix a b i j) [0..<scols a]) [0..<srows a]))
                 [0..<nbands a])"

text \<open>\<open>a /= c\<close> for a scalar \<open>c\<close>; the caller stores the result at the address of \<open>a\<close>.\<close>

definition stack_div_scalar :: "stack \<Rightarrow> real \<Rightarrow> stack" where
  "stack_div_scalar a c = a\<lparr>spix := \<lambda>b i j. spix a b i j / c\<rparr>"

text \<open>\<open>c * a\<close> for a scalar \<open>c\<close>.\<close>

definition image_scale :: "real \<Rightarrow> image \<Rightarrow> image" where
  "image_scale c a = a\<lparr>pix := \<lambda>i j. c * pix a i j\<rparr>"

text \<open>
  The result of a batched map: the per-band images stacked along a new axis 0. All of them
  have one shape (the mapped function is traced once); it is read off the first.
\<close>

definition stack_images :: "image list \<Rightarrow> stack" where
  "stack_images imgs =
     \<lparr>nbands = length imgs,
      srows = (case imgs of [] \<Rightarrow> 0 | a # _ \<Rightarrow> nrows a),
      scols = (case imgs of [] \<Rightarrow> 0 | a # _ \<Rightarrow> ncols a),
      spix = \<lambda>b. pix (imgs ! b)\<rparr>"

text \<open>
  Elementwise arithmetic of two stacks. In this program both operands always have one
  shape; on different shapes NumPy would broadcast or raise, which is not modelled: the
  result is \<open>None\<close> there.
\<close>

definition stack_zip :: "(real \<Rightarrow> real \<Rightarrow> real) \<Rightarrow> stack \<Rightarrow> stack \<Rightarrow> stack option" where
  "stack_zip f a c =
     (if shape3 a = shape3 c then Some (a\<lparr>spix := \<lambda>b i j. f (spix a b i j) (spix c b i j)\<rparr>)
      else None)"

definition stack_add :: "stack \<Rightarrow> stack \<Rightarrow> stack option" where
  "stack_add = stack_zip (+)"

definition stack_sub :: "stack \<Rightarrow> stack \<Rightarrow> stack option" where
  "stack_sub = stack_zip (-)"

definition stack_divide :: "stack \<Rightarrow> stack \<Rightarrow> stack option" where
  "stack_divide = stack_zip (/)"

section \<open>Library functions the model calls\<close>

text \<open>
  \<open>numpy.nanpercentile(a, q)\<close> with its default linear interpolation: the value at the
  fractional position \<open>(n - 1) * q / 100\<close> of the sorted values. The model has no NaN to
  drop. On an empty array NumPy returns NaN; the model returns 0 there.
\<close>

definition nanpercentile :: "real list \<Rightarrow> real \<Rightarrow> real" where
  "nanpercentile a q =
     (let s = sort a; n = length s in
      if n = 0 then 0
      else let h = real (n - 1) * (q / 100);
               lo = nat \<lfloor>h\<rfloor>;
               hi = min (lo + 1) (n - 1)
           in s ! lo + (h - real lo) * (s ! hi - s ! lo))"

text \<open>
  \<open>scipy.ndimage.gaussian_filter(input, sigma)\<close> with a scalar \<open>sigma\<close> and the default
  arguments: a one-dimensional Gaussian correlation along every axis of the input, one
  axis after the other, with the kernel cut at \<open>int(4 * sigma + 0.5)\<close> and the input
  continued beyond its border by reflection (\<open>d c b a | a b c d | d c b a\<close>).
\<close>

definition gaussian_kernel_radius :: "real \<Rightarrow> int" where
  "gaussian_kernel_radius sigma = \<lfloor>4 * sigma + 0.5\<rfloor>"

definition gaussian_phi :: "real \<Rightarrow> int \<Rightarrow> real" where
  "gaussian_phi sigma k = exp (- 0.5 / (sigma * sigma) * (real_of_int k * real_of_int k))"

definition gaussian_kernel1d :: "real \<Rightarrow> int \<Rightarrow> int \<Rightarrow> real" where
  "gaussian_kernel1d sigma radius k =
     gaussian_phi sigma k / (\<Sum>j\<leftarrow>[- radius..radius]. gaussian_phi sigma j)"

definition reflect_index :: "nat \<Rightarrow> int \<Rightarrow> nat" where
  "reflect_index n i =
     (let m = i mod (2 * int n) in nat (if m < int n then m else 2 * int n - 1 - m))"

definition correlate1d :: "(int \<Rightarrow> real) \<Rightarrow> int \<Rightarrow> nat \<Rightarrow> (nat \<Rightarrow> real) \<Rightarrow> nat \<Rightarrow> real" where
  "correlate1d w radius n line i =
     (\<Sum>k\<leftarrow>[- radius..radius]. w k * line (reflect_index n (int i + k)))"

definition gaussian_filter1d :: "real \<Rightarrow> nat \<Rightarrow> (nat \<Rightarrow> real) \<Rightarrow> nat \<Rightarrow> real" where
  "gaussian_filter1d sigma n line i =
     (let lw = gaussian_kernel_radius sigma in correlate1d (gaussian_kernel1d sigma lw) lw n line i)"

definition gaussian_filter :: "stack \<Rightarrow> real \<Rightarrow> stack" where
  "gaussian_filter a sigma =
     (let a0 = a\<lparr>spix := \<lambda>b i j. gaussian_filter1d sigma (nbands a) (\<lambda>b'. spix a b' i j) b\<rparr>;
          a1 = a0\<lparr>spix := \<lambda>b i j. gaussian_filter1d sigma (srows a0) (\<lambda>i'. spix a0 b i' j) i\<rparr>
      in a1\<lparr>spix := \<lambda>b i j. gaussian_filter1d sigma (scols a1) (\<lambda>j'. spix a1 b i j') j\<rparr>)"

text \<open>The same filter on a two-dimensional array: along its two axes only.\<close>

definition gaussian_filter2d :: "image \<Rightarrow> real \<Rightarrow> image" where
  "gaussian_filter2d a sigma =
     (let a0 = a\<lparr>pix := \<lambda>i j. gaussian_filter1d sigma (nrows a) (\<lambda>i'. pix a i' j) i\<rparr>
      in a0\<lparr>pix := \<lambda>i j. gaussian_filter1d sigma (ncols a0) (\<lambda>j'. pix a0 i j') j\<rparr>)"

text \<open>\<open>numpy.arange(a, b)\<close> on integers, and \<open>numpy.meshgrid(x, y)\<close>.\<close>

definition arange :: "int \<Rightarrow> int \<Rightarrow> int list" where
  "arange a b = [a..b - 1]"

definition meshgrid :: "int list \<Rightarrow> int list \<Rightarrow> image \<times> image" where
  "meshgrid x y =
     (\<lparr>nrows = length y, ncols = length x, pix = \<lambda>i j. real_of_int (x ! j)\<rparr>,
      \<lparr>nrows = length y, ncols = length x, pix = \<lambda>i j. real_of_int (y ! i)\<rparr>)"

text \<open>
  \<open>jax.image.scale_and_translate(image, shape, (0, 1), scale, translation, 'bicubic')\<close>
  returns an array of the requested shape. Its pixel values (a bicubic resampling) are a
  parameter of the model: a function of the input image, the output shape, the scale and
  the translation.
\<close>

type_synonym resampler = "image \<Rightarrow> nat \<times> nat \<Rightarrow> real \<times> real \<Rightarrow> real \<times> real \<Rightarrow> nat \<Rightarrow> nat \<Rightarrow> real"

definition scale_and_translate ::
  "resampler \<Rightarrow> image \<Rightarrow> nat \<times> nat \<Rightarrow> real \<times> real \<Rightarrow> real \<times> real \<Rightarrow> image" where
  "scale_and_translate R a outshape sc translation =
     \<lparr>nrows = fst outshape, ncols = snd outshape, pix = R a outshape sc translation\<rparr>"

text \<open>
  The resampling puts the input location \<open>p\<close> (along one axis, pixel \<open>k\<close> covering
  \<open>[k, k + 1]\<close>) at the output location \<open>p * scale + translation\<close>.
\<close>

definition output_location :: "real \<Rightarrow> real \<Rightarrow> real \<Rightarrow> real" where
  "output_location sc translation p = p * sc + translation"

section \<open>Parameter dictionaries\<close>

text \<open>
  \<open>params\<close> is a dictionary from strings to tuples of numbers, numbers, or a nested
  dictionary (\<open>galparams\<close>). A failed lookup, index or unpacking raises; raising is \<open>None\<close>.
\<close>

datatype pval = Num real | Tup "real list" | Dct "(string \<times> pval) list"

type_synonym params = "(string \<times> pval) list"

definition getitem :: "params \<Rightarrow> string \<Rightarrow> pval option" where
  "getitem d k = map_of d k"

text \<open>\<open>len(d)\<close> of a dictionary: the number of its keys.\<close>

definition py_len :: "params \<Rightarrow> nat" where
  "py_len d = length (remdups (map fst d))"

fun index :: "pval \<Rightarrow> nat \<Rightarrow> real option" where
  "index (Tup xs) i = (if i < length xs then Some (xs ! i) else None)"
| "index _ i = None"

fun unpack2 :: "pval \<Rightarrow> (real \<times> real) option" where
  "unpack2 (Tup [a, b]) = Some (a, b)"
| "unpack2 _ = None"

fun unpack3 :: "pval \<Rightarrow> (real \<times> real \<times> real) option" where
  "unpack3 (Tup [a, b, c]) = Some (a, b, c)"
| "unpack3 _ = None"

fun unpack4 :: "pval \<Rightarrow> (real \<times> real \<times> real \<times> real) option" where
  "unpack4 (Tup [a, b, c, d]) = Some (a, b, c, d)"
| "unpack4 _ = None"

fun as_num :: "pval \<Rightarrow> real option" where
  "as_num (Num r) = Some r"
| "as_num _ = None"

fun as_dict :: "pval \<Rightarrow> params option" where
  "as_dict (Dct d) = Some d"
| "as_dict _ = None"

text \<open>
  The number of scalars in a dictionary, \<open>len(flatten(params))\<close>: what the specification
  takes as the number of parameters.
\<close>

fun n_scalars :: "pval \<Rightarrow> nat" where
  "n_scalars (Num r) = 1"
| "n_scalars (Tup xs) = length xs"
| "n_scalars (Dct d) = sum_list (map (\<lambda>kv. n_scalars (snd kv)) d)"

section \<open>SimpleLensedQuasarModel\<close>

text \<open>
  The data and the noise map are arrays of the caller, and the constructor changes them in
  place: arrays live in a store, and the model holds their addresses.
\<close>

type_synonym addr = nat

type_synonym store = "addr \<Rightarrow> stack"

record model =
  scale :: real
  data :: addr
  noisemap :: addr
  upsampling_factor :: int
  bands :: "string list"
  psf :: stack
  X :: image
  Y :: image
  param_optim_with_galaxy :: "real list option"
  param_optim_no_galaxy :: "real list option"
  param_mediansampler_no_galaxy :: "params option"
  param_mediansampler_with_galaxy :: "params option"

text \<open>
  \<open>__init__\<close>. The result is the instance, or \<open>None\<close> when an assertion fails, together
  with the store the call leaves behind.
\<close>

definition init ::
  "store \<Rightarrow> addr \<Rightarrow> addr \<Rightarrow> stack \<Rightarrow> int \<Rightarrow> string list \<Rightarrow> model option \<times> store" where
  "init h data_a noisemap_a narrowpsf upsampling bandnames =
     (let shape = shape3 (h data_a) in
      if shape \<noteq> shape3 (h noisemap_a) then (None, h)
      else
        let sc = nanpercentile (flatten (h data_a)) 99.9;
            h1 = h(data_a := stack_div_scalar (h data_a) sc);
            h2 = h1(noisemap_a := stack_div_scalar (h1 noisemap_a) sc);
            (nband, Nx, Ny) = shape;
            nband2 = nbands narrowpsf
        in if \<not> (nband = nband2 \<and> nband2 = length bandnames) then (None, h2)
           else
             let x = arange ((- int Ny) div 2) (int Ny div 2);
                 y = arange ((- int Nx) div 2) (int Nx div 2);
                 (gX, gY) = meshgrid x y
             in (Some \<lparr>scale = sc, data = data_a, noisemap = noisemap_a,
                        upsampling_factor = upsampling, bands = bandnames,
                        psf = gaussian_filter narrowpsf 0.85, X = gX, Y = gY,
                        param_optim_with_galaxy = None, param_optim_no_galaxy = None,
                        param_mediansampler_no_galaxy = None,
                        param_mediansampler_with_galaxy = None\<rparr>, h2))"

text \<open>The fixed S\'ersic index and its coefficient, as \<open>elliptical_sersic_profile\<close> sets them.\<close>

definition sersic_n :: real where
  "sersic_n = 3"

definition sersic_bn :: real where
  "sersic_bn = 1.9992 * sersic_n - 0.3271"

text \<open>\<open>elliptical_sersic_profile\<close> at one grid point with coordinates \<open>gx\<close>, \<open>gy\<close>.\<close>

definition sersic_at :: "real \<Rightarrow> real \<Rightarrow> real \<Rightarrow> real \<Rightarrow> real \<Rightarrow> real \<Rightarrow> real \<Rightarrow> real \<Rightarrow> real" where
  "sersic_at I_e r_e x0 y0 ellip theta gx gy =
     (let q = 1 - ellip;
          th = theta * pi / 180;
          xt = (gx - x0) * cos th + (gy - y0) * sin th;
          yt = (gy - y0) * cos th - (gx - x0) * sin th;
          r = sqrt (xt\<^sup>2 + (yt / q)\<^sup>2)
      in I_e * exp (- sersic_bn * ((r / r_e) powr (1 / sersic_n) - 1)))"

definition elliptical_sersic_profile ::
  "model \<Rightarrow> real \<Rightarrow> real \<Rightarrow> real \<Rightarrow> real \<Rightarrow> real \<Rightarrow> real \<Rightarrow> image" where
  "elliptical_sersic_profile self I_e r_e x0 y0 ellip theta =
     \<lparr>nrows = nrows (X self), ncols = ncols (X self),
      pix = \<lambda>i j. sersic_at I_e r_e x0 y0 ellip theta (pix (X self) i j) (pix (Y self) i j)\<rparr>"

text \<open>
  The translation \<open>translate_and_scale_psf\<close> computes, from the output shape, the
  supersampling factor, the PSF size and the offsets. \<open>1. / supersampling\<close> raises on 0.
\<close>

definition psf_translation :: "nat \<times> nat \<Rightarrow> int \<Rightarrow> nat \<Rightarrow> real \<Rightarrow> real \<Rightarrow> (real \<times> real) option" where
  "psf_translation outshape supersampling inishape dx dy =
     (if supersampling = 0 then None
      else
        let outoffset = (real inishape / 2) / real_of_int supersampling;
            outoffsetx = outoffset + (real (fst outshape) - real inishape) / real_of_int supersampling;
            outoffsety = outoffset + (real (snd outshape) - real inishape) / real_of_int supersampling
        in Some (dy + outoffsetx, dx + outoffsety))"

definition translate_and_scale_psf ::
  "resampler \<Rightarrow> model \<Rightarrow> real \<Rightarrow> real \<Rightarrow> real \<Rightarrow> image \<Rightarrow> image option" where
  "translate_and_scale_psf R self dx dy amplitude p =
     (let outshape = shape2 (X self);
          supersampling = upsampling_factor self
      in do {
        translation \<leftarrow> psf_translation outshape supersampling (ncols p) dx dy;
        let sc = (1 / real_of_int supersampling, 1 / real_of_int supersampling);
            out = scale_and_translate R p outshape sc translation
        in Some (image_scale amplitude out)
      })"

text \<open>
  \<open>[x] + [x + params[f'offsets_{band}'][k] for band in self.bands[1:]]\<close>: the positions
  of one source in every band.
\<close>

definition band_positions :: "params \<Rightarrow> string list \<Rightarrow> nat \<Rightarrow> real \<Rightarrow> real list option" where
  "band_positions ps bs k x =
     do {
       rest \<leftarrow> those (map (\<lambda>b. do { off \<leftarrow> getitem ps (''offsets_'' @ b);
                                       d \<leftarrow> index off k;
                                       Some (x + d) }) (tl bs));
       Some (x # rest)
     }"

text \<open>\<open>[params[band][k] for band in self.bands]\<close>.\<close>

definition band_amplitudes :: "params \<Rightarrow> string list \<Rightarrow> nat \<Rightarrow> real list option" where
  "band_amplitudes ps bs k = those (map (\<lambda>b. do { v \<leftarrow> getitem ps b; index v k }) bs)"

text \<open>
  The batched map of \<open>translate_and_scale_psf\<close> over axis 0 of its four arguments; it
  raises when their lengths along that axis differ.
\<close>

definition vecpsf ::
  "resampler \<Rightarrow> model \<Rightarrow> real list \<Rightarrow> real list \<Rightarrow> real list \<Rightarrow> stack \<Rightarrow> stack option" where
  "vecpsf R self xs ys amps P =
     (if length xs = length ys \<and> length ys = length amps \<and> length amps = nbands P
      then map_option stack_images
             (those (map (\<lambda>b. translate_and_scale_psf R self (xs ! b) (ys ! b) (amps ! b) (band P b))
                         [0..<nbands P]))
      else None)"

definition model_no_galaxy :: "resampler \<Rightarrow> model \<Rightarrow> params \<Rightarrow> stack option" where
  "model_no_galaxy R self ps =
     do {
       pos \<leftarrow> getitem ps ''positions'';
       (x1, y1, x2, y2) \<leftarrow> unpack4 pos;
       A1s \<leftarrow> band_amplitudes ps (bands self) 0;
       A2s \<leftarrow> band_amplitudes ps (bands self) 1;
       xs1 \<leftarrow> band_positions ps (bands self) 0 x1;
       ys1 \<leftarrow> band_positions ps (bands self) 1 y1;
       xs2 \<leftarrow> band_positions ps (bands self) 0 x2;
       ys2 \<leftarrow> band_positions ps (bands self) 1 y2;
       p1 \<leftarrow> vecpsf R self xs1 ys1 A1s (psf self);
       p2 \<leftarrow> vecpsf R self xs2 ys2 A2s (psf self);
       stack_add p1 p2
     }"

text \<open>The batched map of \<open>elliptical_sersic_profile\<close> over positions and amplitudes.\<close>

definition vecsersic ::
  "model \<Rightarrow> real \<Rightarrow> real \<Rightarrow> real \<Rightarrow> real list \<Rightarrow> real list \<Rightarrow> real list \<Rightarrow> stack option" where
  "vecsersic self r_e ellip theta xs ys ies =
     (if length xs = length ys \<and> length ys = length ies
      then Some (stack_images
                   (map (\<lambda>b. elliptical_sersic_profile self (ies ! b) r_e (xs ! b) (ys ! b) ellip theta)
                        [0..<length xs]))
      else None)"

definition model_with_galaxy :: "resampler \<Rightarrow> model \<Rightarrow> params \<Rightarrow> stack option" where
  "model_with_galaxy R self ps =
     do {
       m \<leftarrow> model_no_galaxy R self ps;
       gp \<leftarrow> getitem ps ''galparams'';
       g \<leftarrow> as_dict gp;
       gpos \<leftarrow> getitem g ''positions'';
       (xg, yg) \<leftarrow> unpack2 gpos;
       morph \<leftarrow> getitem g ''morphology'';
       (r_e, ellip, theta) \<leftarrow> unpack3 morph;
       I_es \<leftarrow> those (map (\<lambda>b. do { v \<leftarrow> getitem g (''I_e_'' @ b); as_num v }) (bands self));
       xgs \<leftarrow> band_positions ps (bands self) 0 xg;
       ygs \<leftarrow> band_positions ps (bands self) 1 yg;
       gal \<leftarrow> vecsersic self r_e ellip theta xgs ygs I_es;
       stack_add m gal
     }"

definition residuals_with_galaxy :: "resampler \<Rightarrow> store \<Rightarrow> model \<Rightarrow> params \<Rightarrow> real list option" where
  "residuals_with_galaxy R h self ps =
     do {
       m \<leftarrow> model_with_galaxy R self ps;
       d \<leftarrow> stack_sub m (h (data self));
       r \<leftarrow> stack_divide d (h (noisemap self));
       Some (flatten r)
     }"

definition residuals_no_galaxy :: "resampler \<Rightarrow> store \<Rightarrow> model \<Rightarrow> params \<Rightarrow> real list option" where
  "residuals_no_galaxy R h self ps =
     do {
       m \<leftarrow> model_no_galaxy R self ps;
       d \<leftarrow> stack_sub m (h (data self));
       r \<leftarrow> stack_divide d (h (noisemap self));
       Some (flatten r)
     }"

text \<open>
  The reduced chi-square. Its divisor is an integer that may be 0, where the floating point
  division gives an infinity or NaN; the model has the value of HOL's division there.
\<close>

definition reduced_chi2_no_galaxy :: "resampler \<Rightarrow> store \<Rightarrow> model \<Rightarrow> params \<Rightarrow> real option" where
  "reduced_chi2_no_galaxy R h self ps =
     do {
       residuals \<leftarrow> residuals_no_galaxy R h self ps;
       let chi_squared = sum_list (map (\<lambda>r. r\<^sup>2) residuals);
           dof = int (size3 (h (data self))) - int (py_len ps)
       in Some (chi_squared / real_of_int dof)
     }"

definition reduced_chi2_with_galaxy :: "resampler \<Rightarrow> store \<Rightarrow> model \<Rightarrow> params \<Rightarrow> real option" where
  "reduced_chi2_with_galaxy R h self ps =
     do {
       residuals \<leftarrow> residuals_with_galaxy R h self ps;
       let chi_squared = sum_list (map (\<lambda>r. r\<^sup>2) residuals);
           dof = int (size3 (h (data self))) - int (py_len ps)
       in Some (chi_squared / real_of_int dof)
     }"

section \<open>The per-band prediction the specification describes\<close>

text \<open>
  The sum of two images of one shape.
\<close>

definition image_add :: "image \<Rightarrow> image \<Rightarrow> image" where
  "image_add a c = a\<lparr>pix := \<lambda>i j. pix a i j + pix c i j\<rparr>"

text \<open>
  The astrometric offset of band \<open>b\<close> along axis \<open>k\<close> (0 for x, 1 for y): zero for the reference
  band, the entry \<open>offsets_<band>\<close> of the parameters for every other band.
\<close>

definition band_offset :: "params \<Rightarrow> string list \<Rightarrow> nat \<Rightarrow> nat \<Rightarrow> real option" where
  "band_offset ps bs k b =
     (if b = 0 then Some 0
      else do { off \<leftarrow> getitem ps (''offsets_'' @ bs ! b); index off k })"

text \<open>
  The two point sources of band \<open>b\<close>: the band's PSF rendered with the band's two amplitudes
  at the shared positions plus the band's offset.
\<close>

definition band_point_sources :: "resampler \<Rightarrow> model \<Rightarrow> params \<Rightarrow> nat \<Rightarrow> image option" where
  "band_point_sources R self ps b =
     do {
       pos \<leftarrow> getitem ps ''positions'';
       (x1, y1, x2, y2) \<leftarrow> unpack4 pos;
       v \<leftarrow> getitem ps (bands self ! b);
       a1 \<leftarrow> index v 0;
       a2 \<leftarrow> index v 1;
       ox \<leftarrow> band_offset ps (bands self) 0 b;
       oy \<leftarrow> band_offset ps (bands self) 1 b;
       i1 \<leftarrow> translate_and_scale_psf R self (x1 + ox) (y1 + oy) a1 (band (psf self) b);
       i2 \<leftarrow> translate_and_scale_psf R self (x2 + ox) (y2 + oy) a2 (band (psf self) b);
       Some (image_add i1 i2)
     }"

text \<open>
  The galaxy of band \<open>b\<close>: the profile with the shared morphology and the band's amplitude, at
  the galaxy position plus the band's offset.
\<close>

definition band_galaxy :: "model \<Rightarrow> params \<Rightarrow> nat \<Rightarrow> image option" where
  "band_galaxy self ps b =
     do {
       gp \<leftarrow> getitem ps ''galparams'';
       g \<leftarrow> as_dict gp;
       gpos \<leftarrow> getitem g ''positions'';
       (xg, yg) \<leftarrow> unpack2 gpos;
       morph \<leftarrow> getitem g ''morphology'';
       (r_e, ellip, theta) \<leftarrow> unpack3 morph;
       v \<leftarrow> getitem g (''I_e_'' @ bands self ! b);
       ie \<leftarrow> as_num v;
       ox \<leftarrow> band_offset ps (bands self) 0 b;
       oy \<leftarrow> band_offset ps (bands self) 1 b;
       Some (elliptical_sersic_profile self ie r_e (xg + ox) (yg + oy) ellip theta)
     }"

text \<open>
  The stack of the per-band galaxy images.
\<close>

definition galaxy_only_render :: "model \<Rightarrow> params \<Rightarrow> stack option" where
  "galaxy_only_render self ps =
     map_option stack_images (those (map (band_galaxy self ps) [0..<length (bands self)]))"

text \<open>
  The galaxy group of the parameters, as \<open>model_with_galaxy\<close> unpacks it: the dictionary, the
  position and the morphology.
\<close>

definition galaxy_parameters ::
  "params \<Rightarrow> (params \<times> real \<times> real \<times> real \<times> real \<times> real) option" where
  "galaxy_parameters ps =
     do {
       gp \<leftarrow> getitem ps ''galparams'';
       g \<leftarrow> as_dict gp;
       gpos \<leftarrow> getitem g ''positions'';
       (xg, yg) \<leftarrow> unpack2 gpos;
       morph \<leftarrow> getitem g ''morphology'';
       (r_e, ellip, theta) \<leftarrow> unpack3 morph;
       Some (g, xg, yg, r_e, ellip, theta)
     }"

text \<open>
  A parameter dictionary with the structure the specification gives it: four positions, two
  amplitudes for every band, two offsets for every band but the first.
\<close>

definition valid_no_galaxy :: "string list \<Rightarrow> params \<Rightarrow> bool" where
  "valid_no_galaxy bs ps =
     ((getitem ps ''positions'' \<bind> unpack4) \<noteq> None \<and>
      (\<forall>b\<in>set bs. \<forall>k<2. (getitem ps b \<bind> (\<lambda>v. index v k)) \<noteq> None) \<and>
      (\<forall>b\<in>set (tl bs). \<forall>k<2. (getitem ps (''offsets_'' @ b) \<bind> (\<lambda>v. index v k)) \<noteq> None))"

text \<open>
  The same with a galaxy group: a position, a morphology and an amplitude for every band.
\<close>

definition valid_with_galaxy :: "string list \<Rightarrow> params \<Rightarrow> bool" where
  "valid_with_galaxy bs ps =
     (valid_no_galaxy bs ps \<and>
      (case galaxy_parameters ps of
         None \<Rightarrow> False
       | Some (g, rest) \<Rightarrow> \<forall>b\<in>set bs. (getitem g (''I_e_'' @ b) \<bind> as_num) \<noteq> None))"

section \<open>Calls on an instance\<close>







text \<open>
  The calls a client makes on a constructed model.
\<close>

datatype call =
    Model_no_galaxy params
  | Model_with_galaxy params
  | Residuals_no_galaxy params
  | Residuals_with_galaxy params
  | Reduced_chi2_no_galaxy params
  | Reduced_chi2_with_galaxy params
  | Optimize_no_galaxy "real list"
  | Optimize_with_galaxy "real list"
  | Sample_no_galaxy
  | Sample_with_galaxy



text \<open>
  The shape the specification gives every band of the PSF stack: square, with a side that is a
  multiple of the supersampling factor.
\<close>

definition psf_shape_consistent :: "int \<Rightarrow> stack \<Rightarrow> bool" where
  "psf_shape_consistent s p = (srows p = scols p \<and> s dvd int (srows p))"

section \<open>Example inputs\<close>

text \<open>
  \<open>numpy.ones((nb, nr, nc))\<close>.
\<close>

definition ones :: "nat \<Rightarrow> nat \<Rightarrow> nat \<Rightarrow> stack" where
  "ones nb nr nc = \<lparr>nbands = nb, srows = nr, scols = nc, spix = \<lambda>b i j. 1\<rparr>"


text \<open>
  A narrow PSF stack of two bands of one pixel: 1 in the first band, 0 in the second; and the
  model built from it.
\<close>

definition blur_narrowpsf :: stack where
  "blur_narrowpsf = \<lparr>nbands = 2, srows = 1, scols = 1, spix = \<lambda>b i j. if b = 0 then 1 else 0\<rparr>"

definition blur_model :: model where
  "blur_model = the (fst (init (\<lambda>a. ones 2 1 1) 0 1 blur_narrowpsf 1 [''g'', ''r'']))"

text \<open>
  A model with one band of 5 by 5 pixels, a PSF of 5 by 5 pixels and supersampling factor 1.
\<close>

definition shifted_model :: model where
  "shifted_model = the (fst (init (\<lambda>a. ones 1 5 5) 0 1 (ones 1 5 5) 1 [''g'']))"

text \<open>
  A model with one band of 3 by 3 pixels, data and noise equal to 1, and the parameters of two
  point sources of amplitude 0.
\<close>

definition chi_params :: params where
  "chi_params = [(''positions'', Tup [0, 0, 0, 0]), (''g'', Tup [0, 0])]"

definition chi_model :: model where
  "chi_model = the (fst (init (\<lambda>a. ones 1 3 3) 0 1 (ones 1 4 4) 2 [''g'']))"

definition chi_store :: store where
  "chi_store = snd (init (\<lambda>a. ones 1 3 3) 0 1 (ones 1 4 4) 2 [''g''])"

text \<open>
  A model with two bands of 3 by 3 pixels and supersampling factor 2, and a full parameter
  dictionary for it.
\<close>

definition demo_params :: params where
  "demo_params =
     [(''positions'', Tup [1, 2, - 1, - 2]),
      (''g'', Tup [10, 20]),
      (''r'', Tup [30, 40]),
      (''offsets_r'', Tup [1 / 2, 1 / 4]),
      (''galparams'', Dct [(''positions'', Tup [0, 0]),
                           (''morphology'', Tup [3, 0, 45]),
                           (''I_e_g'', Num 1),
                           (''I_e_r'', Num 2)])]"

definition demo_model :: model where
  "demo_model = the (fst (init (\<lambda>a. ones 2 3 3) 0 1 (ones 2 4 4) 2 [''g'', ''r'']))"

definition demo_store :: store where
  "demo_store = snd (init (\<lambda>a. ones 2 3 3) 0 1 (ones 2 4 4) 2 [''g'', ''r''])"

section \<open>Point-source rendering\<close>

lemma translate_and_scale_psf_eq:
  "translate_and_scale_psf R self dx dy amplitude p =
     map_option (\<lambda>t. image_scale amplitude
        (scale_and_translate R p (shape2 (X self))
           (1 / real_of_int (upsampling_factor self), 1 / real_of_int (upsampling_factor self)) t))
       (psf_translation (shape2 (X self)) (upsampling_factor self) (ncols p) dx dy)"
  by (cases "psf_translation (shape2 (X self)) (upsampling_factor self) (ncols p) dx dy")
     (simp_all add: translate_and_scale_psf_def Let_def)

lemma image_scale_one: "image_scale 1 a = a"
  by (simp add: image_scale_def)

text \<open>
  C10. The amplitude multiplies every pixel of the resampled PSF, and the resampling does not
  depend on it: whenever the call returns, pixel \<open>(i, j)\<close> of the render with amplitude \<open>a\<close> is
  \<open>a\<close> times the pixel the resampler gives, which is \<open>a\<close> times that pixel of the render with
  amplitude 1, on one shape; and the two calls raise together. This holds for every offset,
  every PSF and every resampler.
\<close>

theorem translate_and_scale_psf_homogeneous:
  "((translate_and_scale_psf R self dx dy a p = None)
      = (translate_and_scale_psf R self dx dy 1 p = None)) \<and>
   (\<forall>v u. translate_and_scale_psf R self dx dy a p = Some v \<and>
          translate_and_scale_psf R self dx dy 1 p = Some u \<longrightarrow>
          shape2 v = shape2 u \<and> (\<forall>i j. pix v i j = a * pix u i j)) \<and>
   (\<forall>v. translate_and_scale_psf R self dx dy a p = Some v \<longrightarrow>
        (\<exists>t. psf_translation (shape2 (X self)) (upsampling_factor self) (ncols p) dx dy = Some t \<and>
             shape2 v = shape2 (X self) \<and>
             (\<forall>i j. pix v i j =
                a * R p (shape2 (X self))
                      (1 / real_of_int (upsampling_factor self),
                       1 / real_of_int (upsampling_factor self)) t i j)))"
  by (cases "psf_translation (shape2 (X self)) (upsampling_factor self) (ncols p) dx dy")
     (auto simp: translate_and_scale_psf_eq image_scale_def scale_and_translate_def shape2_def)

section \<open>The Sersic profile\<close>

lemma rot_norm: "(a * cos (t::real) + b * sin t)\<^sup>2 + (b * cos t - a * sin t)\<^sup>2 = a\<^sup>2 + b\<^sup>2"
proof -
  have "(a * cos t + b * sin t)\<^sup>2 + (b * cos t - a * sin t)\<^sup>2
        = (a\<^sup>2 + b\<^sup>2) * ((sin t)\<^sup>2 + (cos t)\<^sup>2)"
    by algebra
  then show ?thesis by simp
qed

text \<open>
  C5. Every pixel of the profile is \<open>I_e * exp (- b_n * ((r / r_e) powr (1 / 3) - 1))\<close> with the
  fixed index 3, the coefficient \<open>b_n = 1.9992 * 3 - 0.3271\<close> and \<open>r\<close> the elliptical radius of
  the grid point, rotated by \<open>theta\<close> degrees about \<open>(x0, y0)\<close>; the profile has the shape of
  the grid. With ellipticity 0 its value is exactly \<open>I_e\<close> at every grid point whose distance
  from \<open>(x0, y0)\<close> is \<open>r_e\<close>, for every orientation. The effective radius is not 0 there (at
  0 the code divides 0 by 0).
\<close>

theorem sersic_on_effective_radius:
  "pix (elliptical_sersic_profile self I_e r_e x0 y0 ellip theta) i j =
     I_e * exp (- (1.9992 * 3 - 0.3271) *
       ((sqrt (((pix (X self) i j - x0) * cos (theta * pi / 180)
                  + (pix (Y self) i j - y0) * sin (theta * pi / 180))\<^sup>2
               + (((pix (Y self) i j - y0) * cos (theta * pi / 180)
                  - (pix (X self) i j - x0) * sin (theta * pi / 180)) / (1 - ellip))\<^sup>2)
          / r_e) powr (1 / 3) - 1)) \<and>
   shape2 (elliptical_sersic_profile self I_e r_e x0 y0 ellip theta) = shape2 (X self) \<and>
   (r_e \<noteq> 0 \<and> sqrt ((pix (X self) i j - x0)\<^sup>2 + (pix (Y self) i j - y0)\<^sup>2) = r_e \<longrightarrow>
      pix (elliptical_sersic_profile self I_e r_e x0 y0 0 theta) i j = I_e)"
  by (simp add: elliptical_sersic_profile_def sersic_at_def sersic_n_def sersic_bn_def rot_norm
        shape2_def Let_def)

section \<open>The constructor\<close>

lemma length_arange: "length (arange ((- int N) div 2) (int N div 2)) = N"
  by (simp add: arange_def)

lemma init_eq:
  "init h d n p s bs =
    (if shape3 (h d) \<noteq> shape3 (h n) then (None, h)
     else if \<not> (nbands (h d) = nbands p \<and> nbands p = length bs)
       then (None, (h(d := stack_div_scalar (h d) (nanpercentile (flatten (h d)) 99.9)))
               (n := stack_div_scalar ((h(d := stack_div_scalar (h d) (nanpercentile (flatten (h d)) 99.9))) n) (nanpercentile (flatten (h d)) 99.9)))
     else (Some \<lparr>scale = nanpercentile (flatten (h d)) 99.9, data = d, noisemap = n,
                        upsampling_factor = s, bands = bs,
                        psf = gaussian_filter p 0.85,
                        X = fst (meshgrid (arange ((- int (scols (h d))) div 2) (int (scols (h d)) div 2)) (arange ((- int (srows (h d))) div 2) (int (srows (h d)) div 2))),
                        Y = snd (meshgrid (arange ((- int (scols (h d))) div 2) (int (scols (h d)) div 2)) (arange ((- int (srows (h d))) div 2) (int (srows (h d)) div 2))),
                        param_optim_with_galaxy = None, param_optim_no_galaxy = None,
                        param_mediansampler_no_galaxy = None,
                        param_mediansampler_with_galaxy = None\<rparr>,
         (h(d := stack_div_scalar (h d) (nanpercentile (flatten (h d)) 99.9)))
               (n := stack_div_scalar ((h(d := stack_div_scalar (h d) (nanpercentile (flatten (h d)) 99.9))) n) (nanpercentile (flatten (h d)) 99.9))))"
  by (simp add: init_def Let_def shape3_def split: prod.splits)

text \<open>
  C9, as amended. The constructor returns an instance exactly when the data and the noise map
  have one shape and the band counts of the data, of the PSF stack and of the band list agree.
  The size of the PSF bands plays no part.
\<close>

theorem init_succeeds_iff:
  "(fst (init h d n p s bs) \<noteq> None) =
     (shape3 (h d) = shape3 (h n) \<and> nbands (h d) = nbands p \<and> nbands p = length bs)"
  by (simp add: init_eq)

text \<open>
  C9, counterexample. A PSF stack whose bands are 1 by 2 pixels, neither square nor a multiple
  of the supersampling factor 2, is accepted.
\<close>

theorem init_unchecked_psf_size:
  "\<not> psf_shape_consistent 2 (ones 1 1 2) \<and>
   fst (init (\<lambda>a. ones 1 3 3) 0 1 (ones 1 1 2) 2 [''g'']) \<noteq> None"
  by (simp add: psf_shape_consistent_def ones_def init_eq shape3_def)

section \<open>The composite model\<close>

lemma those_map_eq:
  "those (map f xs) = (if \<forall>x\<in>set xs. f x \<noteq> None then Some (map (\<lambda>x. the (f x)) xs) else None)"
  by (induction xs) (auto split: option.splits)

lemma those_map_upt:
  "those (map f [0..<n]) = (if \<forall>b<n. f b \<noteq> None then Some (map (\<lambda>b. the (f b)) [0..<n]) else None)"
  by (simp add: those_map_eq)

lemma all_tl_conv: "(\<forall>c\<in>set (tl bs). P c) = (\<forall>b<length bs. 0 < b \<longrightarrow> P (bs ! b))"
proof (cases bs)
  case Nil then show ?thesis by simp
next
  case (Cons c cs)
  have "(\<forall>c\<in>set cs. P c) = (\<forall>i<length cs. P (cs ! i))"
    by (simp add: all_set_conv_all_nth)
  also have "\<dots> = (\<forall>b<Suc (length cs). 0 < b \<longrightarrow> P ((c # cs) ! b))"
    by (auto simp: less_Suc_eq_0_disj)
  finally show ?thesis using Cons by simp
qed

lemma band_positions_eq:
  assumes "bs \<noteq> []"
  shows "band_positions ps bs k x =
     (if \<forall>b<length bs. band_offset ps bs k b \<noteq> None
      then Some (map (\<lambda>b. x + the (band_offset ps bs k b)) [0..<length bs]) else None)"
proof -
  define g where "g = (\<lambda>c. do { off \<leftarrow> getitem ps (''offsets_'' @ c); index off k })"
  have f: "do { off \<leftarrow> getitem ps (''offsets_'' @ c); d \<leftarrow> index off k; Some (x + d) }
           = map_option ((+) x) (g c)" for c
    unfolding g_def by (cases "getitem ps (''offsets_'' @ c)") (auto split: bind_splits)
  have bo: "band_offset ps bs' k b = (if b = 0 then Some 0 else g (bs' ! b))" for b bs'
    by (simp add: band_offset_def g_def)
  have bp: "band_positions ps bs k x =
     (if \<forall>c\<in>set (tl bs). g c \<noteq> None
      then Some (x # map (\<lambda>c. x + the (g c)) (tl bs)) else None)"
    unfolding band_positions_def f those_map_eq by (auto simp: option.map_sel)
  have all: "(\<forall>c\<in>set (tl bs). g c \<noteq> None) = (\<forall>b<length bs. band_offset ps bs k b \<noteq> None)"
    unfolding all_tl_conv bo by auto
  have eq: "x # map (\<lambda>c. x + the (g c)) (tl bs)
            = map (\<lambda>b. x + the (band_offset ps bs k b)) [0..<length bs]"
  proof (rule nth_equalityI)
    show "length (x # map (\<lambda>c. x + the (g c)) (tl bs))
          = length (map (\<lambda>b. x + the (band_offset ps bs k b)) [0..<length bs])"
      using assms by simp
  next
    fix i assume "i < length (x # map (\<lambda>c. x + the (g c)) (tl bs))"
    then have i: "i < length bs" using assms by simp
    show "(x # map (\<lambda>c. x + the (g c)) (tl bs)) ! i
          = map (\<lambda>b. x + the (band_offset ps bs k b)) [0..<length bs] ! i"
    proof -
      have r: "map (\<lambda>b. x + the (band_offset ps bs k b)) [0..<length bs] ! i
               = x + the (band_offset ps bs k i)"
        using i by simp
      obtain c cs where bs: "bs = c # cs" using assms by (cases bs) auto
      have l: "(x # map (\<lambda>c. x + the (g c)) (tl bs)) ! i = x + the (band_offset ps bs k i)"
        using i unfolding bs bo by (cases i) simp_all
      show ?thesis unfolding r l ..
    qed
  qed
  show ?thesis
    unfolding bp all eq ..
qed

lemma those_map_nth:
  "those (map f bs) =
     (if \<forall>b<length bs. f (bs ! b) \<noteq> None then Some (map (\<lambda>b. the (f (bs ! b))) [0..<length bs])
      else None)"
proof -
  have "map f bs = map (\<lambda>b. f (bs ! b)) [0..<length bs]"
    by (rule nth_equalityI) simp_all
  then show ?thesis by (simp add: those_map_upt)
qed

lemma band_amplitudes_eq:
  "band_amplitudes ps bs k =
     (if \<forall>b<length bs. (getitem ps (bs ! b) \<bind> (\<lambda>v. index v k)) \<noteq> None
      then Some (map (\<lambda>b. the (getitem ps (bs ! b) \<bind> (\<lambda>v. index v k))) [0..<length bs])
      else None)"
  unfolding band_amplitudes_def by (rule those_map_nth)

lemma band_positions_Nil: "band_positions ps [] k x = Some [x]"
  by (simp add: band_positions_def)

lemma translate_and_scale_psf_cases:
  "translate_and_scale_psf R self dx dy a p =
     (if upsampling_factor self = 0 then None
      else Some (image_scale a (scale_and_translate R p (shape2 (X self))
            (1 / real_of_int (upsampling_factor self), 1 / real_of_int (upsampling_factor self))
            (the (psf_translation (shape2 (X self)) (upsampling_factor self) (ncols p) dx dy)))))"
  by (simp add: translate_and_scale_psf_eq psf_translation_def Let_def)

lemma translate_and_scale_psf_shape:
  "translate_and_scale_psf R self dx dy a p = Some img \<Longrightarrow>
     nrows img = nrows (X self) \<and> ncols img = ncols (X self)"
  by (auto simp: translate_and_scale_psf_cases image_scale_def scale_and_translate_def shape2_def
           split: if_splits)

lemma stack_images_shape:
  "0 < n \<Longrightarrow> shape3 (stack_images (map f [0..<n])) = (n, nrows (f 0), ncols (f 0))"
  by (simp add: stack_images_def shape3_def upt_conv_Cons)

lemma stack_images_band:
  "b < n \<Longrightarrow> spix (stack_images (map f [0..<n])) b = pix (f b)"
  by (simp add: stack_images_def)

lemma vecpsf_eq:
  "vecpsf R self xs ys amps P =
     (if length xs = length ys \<and> length ys = length amps \<and> length amps = nbands P
         \<and> (\<forall>b<nbands P. translate_and_scale_psf R self (xs ! b) (ys ! b) (amps ! b) (band P b) \<noteq> None)
      then Some (stack_images (map (\<lambda>b. the (translate_and_scale_psf R self (xs ! b) (ys ! b) (amps ! b) (band P b)))
                                   [0..<nbands P]))
      else None)"
  by (simp add: vecpsf_def those_map_upt)

lemma model_no_galaxy_Some:
  assumes "model_no_galaxy R self ps = Some m"
  shows "bands self \<noteq> []"
    and "nbands (psf self) = length (bands self)"
    and "shape3 m = (length (bands self), nrows (X self), ncols (X self))"
    and "\<forall>b<length (bands self). band_point_sources R self ps b = Some (band m b)"
proof -
  let ?bs = "bands self"
  let ?n = "length ?bs"
  from assms obtain pos x1 y1 x2 y2 A1s A2s xs1 ys1 xs2 ys2 p1 p2 where
    pos: "getitem ps ''positions'' = Some pos" "unpack4 pos = Some (x1, y1, x2, y2)"
    and A1: "band_amplitudes ps ?bs 0 = Some A1s" and A2: "band_amplitudes ps ?bs 1 = Some A2s"
    and xs1: "band_positions ps ?bs 0 x1 = Some xs1" and ys1: "band_positions ps ?bs 1 y1 = Some ys1"
    and xs2: "band_positions ps ?bs 0 x2 = Some xs2" and ys2: "band_positions ps ?bs 1 y2 = Some ys2"
    and p1: "vecpsf R self xs1 ys1 A1s (psf self) = Some p1"
    and p2: "vecpsf R self xs2 ys2 A2s (psf self) = Some p2"
    and m: "stack_add p1 p2 = Some m"
    unfolding model_no_galaxy_def by (auto split: bind_splits prod.splits)
  have lA1: "length A1s = ?n" using A1 by (auto simp: band_amplitudes_eq split: if_splits)
  have lp1: "length xs1 = length A1s" "length A1s = nbands (psf self)"
    using p1 by (auto simp: vecpsf_eq split: if_splits)
  show ne: "?bs \<noteq> []"
  proof
    assume "?bs = []"
    with xs1 lA1 lp1 show False by (simp add: band_positions_Nil)
  qed
  show np: "nbands (psf self) = ?n" using lA1 lp1 by simp
  have npos: "0 < nbands (psf self)" using ne np by simp
  let ?T1 = "\<lambda>b. translate_and_scale_psf R self (xs1 ! b) (ys1 ! b) (A1s ! b) (band (psf self) b)"
  let ?T2 = "\<lambda>b. translate_and_scale_psf R self (xs2 ! b) (ys2 ! b) (A2s ! b) (band (psf self) b)"
  have T1: "\<forall>b<?n. ?T1 b \<noteq> None" and p1e: "p1 = stack_images (map (\<lambda>b. the (?T1 b)) [0..<?n])"
    using p1 np by (auto simp: vecpsf_eq split: if_splits)
  have T2: "\<forall>b<?n. ?T2 b \<noteq> None" and p2e: "p2 = stack_images (map (\<lambda>b. the (?T2 b)) [0..<?n])"
    using p2 np by (auto simp: vecpsf_eq split: if_splits)
  have n0: "0 < ?n" using ne by simp
  have dims: "nrows (the (?T1 b)) = nrows (X self) \<and> ncols (the (?T1 b)) = ncols (X self)" if "b < ?n" for b
    using T1 that translate_and_scale_psf_shape [of R self "xs1 ! b" "ys1 ! b" "A1s ! b" "band (psf self) b"]
    by auto
  have sp1: "shape3 p1 = (?n, nrows (X self), ncols (X self))"
    unfolding p1e using stack_images_shape [OF n0] dims [OF n0] by simp
  have me: "m = p1\<lparr>spix := \<lambda>b i j. spix p1 b i j + spix p2 b i j\<rparr>"
    using m by (auto simp: stack_add_def stack_zip_def split: if_splits)
  show "shape3 m = (?n, nrows (X self), ncols (X self))"
    using sp1 unfolding me by (simp add: shape3_def)
  show "\<forall>b<?n. band_point_sources R self ps b = Some (band m b)"
  proof (intro allI impI)
    fix b assume b: "b < ?n"
    have a1: "getitem ps (?bs ! b) \<bind> (\<lambda>v. index v 0) = Some (A1s ! b)"
      using A1 b by (auto simp: band_amplitudes_eq split: if_splits)
    have a2: "getitem ps (?bs ! b) \<bind> (\<lambda>v. index v 1) = Some (A2s ! b)"
      using A2 b by (auto simp: band_amplitudes_eq split: if_splits)
    from a1 obtain v where v: "getitem ps (?bs ! b) = Some v" "index v 0 = Some (A1s ! b)"
      by (auto split: bind_splits)
    with a2 have v1: "index v 1 = Some (A2s ! b)" by simp
    have ox: "band_offset ps ?bs 0 b \<noteq> None" "xs1 ! b = x1 + the (band_offset ps ?bs 0 b)"
         "xs2 ! b = x2 + the (band_offset ps ?bs 0 b)"
      using xs1 xs2 b by (auto simp: band_positions_eq [OF ne] split: if_splits)
    have oy: "band_offset ps ?bs 1 b \<noteq> None" "ys1 ! b = y1 + the (band_offset ps ?bs 1 b)"
         "ys2 ! b = y2 + the (band_offset ps ?bs 1 b)"
      using ys1 ys2 b by (auto simp: band_positions_eq [OF ne] split: if_splits)
    from ox(1) obtain dx where dx: "band_offset ps ?bs 0 b = Some dx" by auto
    from oy(1) obtain dy where dy: "band_offset ps ?bs 1 b = Some dy" by auto
    from T1 b obtain i1 where i1: "?T1 b = Some i1" by auto
    from T2 b obtain i2 where i2: "?T2 b = Some i2" by auto
    have bps: "band_point_sources R self ps b = Some (image_add i1 i2)"
      using pos v v1 dx dy i1 i2 ox oy by (simp add: band_point_sources_def)
    have "band m b = image_add i1 i2"
      using b i1 i2 dims [OF b] sp1
      by (simp add: band_def me p1e p2e stack_images_band image_add_def shape3_def)
    with bps show "band_point_sources R self ps b = Some (band m b)" by simp
  qed
qed

lemma model_with_galaxy_alt:
  "model_with_galaxy R self ps =
     do {
       m \<leftarrow> model_no_galaxy R self ps;
       (g, xg, yg, r_e, ellip, theta) \<leftarrow> galaxy_parameters ps;
       I_es \<leftarrow> those (map (\<lambda>b. do { v \<leftarrow> getitem g (''I_e_'' @ b); as_num v }) (bands self));
       xgs \<leftarrow> band_positions ps (bands self) 0 xg;
       ygs \<leftarrow> band_positions ps (bands self) 1 yg;
       gal \<leftarrow> vecsersic self r_e ellip theta xgs ygs I_es;
       stack_add m gal
     }"
  unfolding model_with_galaxy_def galaxy_parameters_def
  by (auto split: bind_splits prod.splits)

lemma band_galaxy_alt:
  "band_galaxy self ps b =
     do {
       (g, xg, yg, r_e, ellip, theta) \<leftarrow> galaxy_parameters ps;
       v \<leftarrow> getitem g (''I_e_'' @ bands self ! b);
       ie \<leftarrow> as_num v;
       ox \<leftarrow> band_offset ps (bands self) 0 b;
       oy \<leftarrow> band_offset ps (bands self) 1 b;
       Some (elliptical_sersic_profile self ie r_e (xg + ox) (yg + oy) ellip theta)
     }"
  unfolding band_galaxy_def galaxy_parameters_def
  by (auto split: bind_splits prod.splits)

lemma galaxy_stack_eq:
  assumes ne: "bs \<noteq> []" and bs: "bs = bands self"
    and gp: "galaxy_parameters ps = Some (g, xg, yg, r_e, ellip, theta)"
  shows "do {
       I_es \<leftarrow> those (map (\<lambda>b. do { v \<leftarrow> getitem g (''I_e_'' @ b); as_num v }) bs);
       xgs \<leftarrow> band_positions ps bs 0 xg;
       ygs \<leftarrow> band_positions ps bs 1 yg;
       vecsersic self r_e ellip theta xgs ygs I_es
     } = galaxy_only_render self ps"
proof -
  let ?n = "length bs"
  let ?fI = "\<lambda>b. do { v \<leftarrow> getitem g (''I_e_'' @ bs ! b); as_num v }"
  let ?ox = "\<lambda>b. band_offset ps bs 0 b"
  let ?oy = "\<lambda>b. band_offset ps bs 1 b"
  let ?img = "\<lambda>b. elliptical_sersic_profile self (the (?fI b)) r_e (xg + the (?ox b)) (yg + the (?oy b)) ellip theta"
  have bg: "band_galaxy self ps b =
      (if ?fI b \<noteq> None \<and> ?ox b \<noteq> None \<and> ?oy b \<noteq> None then Some (?img b) else None)" for b
    unfolding band_galaxy_alt gp bs [symmetric] by (auto split: bind_splits)
  have I: "those (map (\<lambda>b. do { v \<leftarrow> getitem g (''I_e_'' @ b); as_num v }) bs) =
      (if \<forall>b<?n. ?fI b \<noteq> None then Some (map (\<lambda>b. the (?fI b)) [0..<?n]) else None)"
    by (rule those_map_nth)
  have G: "those (map (band_galaxy self ps) [0..<?n]) =
      (if \<forall>b<?n. band_galaxy self ps b \<noteq> None
       then Some (map (\<lambda>b. the (band_galaxy self ps b)) [0..<?n]) else None)"
    by (rule those_map_upt)
  show ?thesis
  proof (cases "(\<forall>b<?n. ?fI b \<noteq> None) \<and> (\<forall>b<?n. ?ox b \<noteq> None) \<and> (\<forall>b<?n. ?oy b \<noteq> None)")
    case True
    then have all: "\<forall>b<?n. band_galaxy self ps b \<noteq> None" by (simp add: bg)
    have l: "map (\<lambda>b. elliptical_sersic_profile self
                 (map (\<lambda>b. the (?fI b)) [0..<?n] ! b) r_e
                 (map (\<lambda>b. xg + the (?ox b)) [0..<?n] ! b)
                 (map (\<lambda>b. yg + the (?oy b)) [0..<?n] ! b) ellip theta) [0..<?n]
             = map (\<lambda>b. the (band_galaxy self ps b)) [0..<?n]"
      using True by (intro map_cong) (simp_all add: bg)
    have v: "vecsersic self r_e ellip theta (map (\<lambda>b. xg + the (?ox b)) [0..<?n])
               (map (\<lambda>b. yg + the (?oy b)) [0..<?n]) (map (\<lambda>b. the (?fI b)) [0..<?n])
             = Some (stack_images (map (\<lambda>b. the (band_galaxy self ps b)) [0..<?n]))"
      unfolding vecsersic_def l [symmetric] by simp
    show ?thesis
      unfolding galaxy_only_render_def bs [symmetric] I G band_positions_eq [OF ne]
      using True all v by simp
  next
    case False
    then have "\<not> (\<forall>b<?n. band_galaxy self ps b \<noteq> None)" by (auto simp: bg)
    then have r: "galaxy_only_render self ps = None"
      unfolding galaxy_only_render_def bs [symmetric] G by simp
    from False have "\<not> (\<forall>b<?n. ?fI b \<noteq> None) \<or> \<not> (\<forall>b<?n. ?ox b \<noteq> None)
        \<or> \<not> (\<forall>b<?n. ?oy b \<noteq> None)"
      by blast
    then show ?thesis
      unfolding r I band_positions_eq [OF ne]
      by (elim disjE) (simp_all only: if_False if_True bind.bind_lzero bind.bind_lunit simp_thms split: if_split)
  qed
qed

lemma galaxy_only_render_None:
  assumes "bands self \<noteq> []" and "galaxy_parameters ps = None"
  shows "galaxy_only_render self ps = None"
proof -
  have "band_galaxy self ps 0 = None" unfolding band_galaxy_alt using assms(2) by simp
  then have "\<not> (\<forall>b<length (bands self). band_galaxy self ps b \<noteq> None)"
    using assms(1) by auto
  then show ?thesis unfolding galaxy_only_render_def those_map_upt by simp
qed

lemma model_with_galaxy_decompose:
  "model_with_galaxy R self ps =
     do {
       m \<leftarrow> model_no_galaxy R self ps;
       g \<leftarrow> galaxy_only_render self ps;
       stack_add m g
     }"
proof (cases "model_no_galaxy R self ps")
  case None
  then show ?thesis by (simp add: model_with_galaxy_alt)
next
  case (Some m)
  then have ne: "bands self \<noteq> []" by (rule model_no_galaxy_Some(1))
  show ?thesis
  proof (cases "galaxy_parameters ps")
    case None
    then show ?thesis
      using Some galaxy_only_render_None [OF ne None] by (simp add: model_with_galaxy_alt)
  next
    case (Some t)
    obtain g xg yg r_e ellip theta where t: "t = (g, xg, yg, r_e, ellip, theta)"
      by (cases t) auto
    have "model_with_galaxy R self ps =
        do { gal \<leftarrow> do {
               I_es \<leftarrow> those (map (\<lambda>b. do { v \<leftarrow> getitem g (''I_e_'' @ b); as_num v }) (bands self));
               xgs \<leftarrow> band_positions ps (bands self) 0 xg;
               ygs \<leftarrow> band_positions ps (bands self) 1 yg;
               vecsersic self r_e ellip theta xgs ygs I_es };
             stack_add m gal }"
      using \<open>model_no_galaxy R self ps = Some m\<close> Some t by (simp add: model_with_galaxy_alt)
    also have "\<dots> = do { gal \<leftarrow> galaxy_only_render self ps; stack_add m gal }"
      using galaxy_stack_eq [OF ne refl Some [unfolded t]] by simp
    finally show ?thesis using \<open>model_no_galaxy R self ps = Some m\<close> by simp
  qed
qed


lemma band_galaxy_shape:
  "band_galaxy self ps b = Some gi \<Longrightarrow> nrows gi = nrows (X self) \<and> ncols gi = ncols (X self)"
  unfolding band_galaxy_alt
  by (auto simp: elliptical_sersic_profile_def split: bind_splits prod.splits)

lemma galaxy_only_render_Some:
  assumes "galaxy_only_render self ps = Some g" and "bands self \<noteq> []"
  shows "shape3 g = (length (bands self), nrows (X self), ncols (X self))"
    and "\<forall>b<length (bands self). band_galaxy self ps b \<noteq> None
            \<and> spix g b = pix (the (band_galaxy self ps b))"
proof -
  let ?n = "length (bands self)"
  have n0: "0 < ?n" using assms(2) by simp
  from assms(1) have all: "\<forall>b<?n. band_galaxy self ps b \<noteq> None"
    and g: "g = stack_images (map (\<lambda>b. the (band_galaxy self ps b)) [0..<?n])"
    by (auto simp: galaxy_only_render_def those_map_upt split: if_splits)
  have dims: "nrows (the (band_galaxy self ps b)) = nrows (X self)
      \<and> ncols (the (band_galaxy self ps b)) = ncols (X self)" if "b < ?n" for b
  proof -
    from all that obtain gi where "band_galaxy self ps b = Some gi" by auto
    then show ?thesis using band_galaxy_shape by simp
  qed
  show "shape3 g = (?n, nrows (X self), ncols (X self))"
    unfolding g using stack_images_shape [OF n0] dims [OF n0] by simp
  show "\<forall>b<?n. band_galaxy self ps b \<noteq> None \<and> spix g b = pix (the (band_galaxy self ps b))"
    using all unfolding g by (simp add: stack_images_band)
qed

lemma model_with_galaxy_Some:
  assumes "model_with_galaxy R self ps = Some m'"
  shows "\<exists>m g. model_no_galaxy R self ps = Some m \<and> galaxy_only_render self ps = Some g
    \<and> shape3 m' = shape3 m \<and> (\<forall>b. spix m' b = (\<lambda>i j. spix m b i j + spix g b i j))"
proof -
  from assms obtain m g where m: "model_no_galaxy R self ps = Some m"
    and g: "galaxy_only_render self ps = Some g" and a: "stack_add m g = Some m'"
    unfolding model_with_galaxy_decompose by (auto split: bind_splits)
  from a have "m' = m\<lparr>spix := \<lambda>b i j. spix m b i j + spix g b i j\<rparr>"
    by (auto simp: stack_add_def stack_zip_def split: if_splits)
  then have "shape3 m' = shape3 m" "\<forall>b. spix m' b = (\<lambda>i j. spix m b i j + spix g b i j)"
    by (simp_all add: shape3_def)
  with m g show ?thesis by blast
qed

text \<open>
  C6. The offset of the reference band is 0 and that of every other band is its entry of the
  parameters. In both variants band \<open>b\<close> of the prediction is made of the two point sources
  rendered at the shared positions plus the band's offset; with the galaxy, of these plus the
  profile at the galaxy position plus the same offset.
\<close>

theorem reference_band_carries_no_offset:
  assumes b: "b < length (bands self)"
  shows
   "band_offset ps (bands self) k 0 = Some 0 \<and>
    (0 < b \<longrightarrow> band_offset ps (bands self) k b
        = getitem ps (''offsets_'' @ bands self ! b) \<bind> (\<lambda>off. index off k)) \<and>
    (\<forall>m. model_no_galaxy R self ps = Some m \<longrightarrow>
       (\<exists>x1 y1 x2 y2 v a1 a2 ox oy i1 i2.
          getitem ps ''positions'' \<bind> unpack4 = Some (x1, y1, x2, y2) \<and>
          getitem ps (bands self ! b) = Some v \<and> index v 0 = Some a1 \<and> index v 1 = Some a2 \<and>
          band_offset ps (bands self) 0 b = Some ox \<and> band_offset ps (bands self) 1 b = Some oy \<and>
          translate_and_scale_psf R self (x1 + ox) (y1 + oy) a1 (band (psf self) b) = Some i1 \<and>
          translate_and_scale_psf R self (x2 + ox) (y2 + oy) a2 (band (psf self) b) = Some i2 \<and>
          band m b = image_add i1 i2)) \<and>
    (\<forall>m'. model_with_galaxy R self ps = Some m' \<longrightarrow>
       (\<exists>m g xg yg r_e ellip theta v ie ox oy.
          model_no_galaxy R self ps = Some m \<and>
          galaxy_parameters ps = Some (g, xg, yg, r_e, ellip, theta) \<and>
          getitem g (''I_e_'' @ bands self ! b) = Some v \<and> as_num v = Some ie \<and>
          band_offset ps (bands self) 0 b = Some ox \<and> band_offset ps (bands self) 1 b = Some oy \<and>
          band m' b = image_add (band m b)
             (elliptical_sersic_profile self ie r_e (xg + ox) (yg + oy) ellip theta)))"
proof (intro conjI allI impI)
  show "band_offset ps (bands self) k 0 = Some 0" by (simp add: band_offset_def)
next
  assume "0 < b"
  then show "band_offset ps (bands self) k b
        = getitem ps (''offsets_'' @ bands self ! b) \<bind> (\<lambda>off. index off k)"
    by (simp add: band_offset_def)
next
  fix m assume "model_no_galaxy R self ps = Some m"
  then have "band_point_sources R self ps b = Some (band m b)"
    using model_no_galaxy_Some(4) b by blast
  then show "\<exists>x1 y1 x2 y2 v a1 a2 ox oy i1 i2.
          getitem ps ''positions'' \<bind> unpack4 = Some (x1, y1, x2, y2) \<and>
          getitem ps (bands self ! b) = Some v \<and> index v 0 = Some a1 \<and> index v 1 = Some a2 \<and>
          band_offset ps (bands self) 0 b = Some ox \<and> band_offset ps (bands self) 1 b = Some oy \<and>
          translate_and_scale_psf R self (x1 + ox) (y1 + oy) a1 (band (psf self) b) = Some i1 \<and>
          translate_and_scale_psf R self (x2 + ox) (y2 + oy) a2 (band (psf self) b) = Some i2 \<and>
          band m b = image_add i1 i2"
    unfolding band_point_sources_def by (auto split: bind_splits prod.splits)
next
  fix m' assume "model_with_galaxy R self ps = Some m'"
  then obtain m g where m: "model_no_galaxy R self ps = Some m"
    and g: "galaxy_only_render self ps = Some g" and sh: "shape3 m' = shape3 m"
    and px: "\<forall>b. spix m' b = (\<lambda>i j. spix m b i j + spix g b i j)"
    using model_with_galaxy_Some by blast
  have ne: "bands self \<noteq> []" using b by auto
  from galaxy_only_render_Some(2) [OF g ne] b
  obtain gi where gi: "band_galaxy self ps b = Some gi" and sg: "spix g b = pix gi" by auto
  have shm: "shape3 m = (length (bands self), nrows (X self), ncols (X self))"
    using m by (rule model_no_galaxy_Some(3))
  have "band m' b = image_add (band m b) gi"
    using sh px sg by (simp add: band_def image_add_def shape3_def)
  with gi m show "\<exists>m g xg yg r_e ellip theta v ie ox oy.
          model_no_galaxy R self ps = Some m \<and>
          galaxy_parameters ps = Some (g, xg, yg, r_e, ellip, theta) \<and>
          getitem g (''I_e_'' @ bands self ! b) = Some v \<and> as_num v = Some ie \<and>
          band_offset ps (bands self) 0 b = Some ox \<and> band_offset ps (bands self) 1 b = Some oy \<and>
          band m' b = image_add (band m b)
             (elliptical_sersic_profile self ie r_e (xg + ox) (yg + oy) ellip theta)"
    unfolding band_galaxy_alt by (auto split: bind_splits prod.splits)
qed

section \<open>Shapes\<close>

lemma init_Some:
  assumes "init h d n p s bs = (Some self, h')"
  shows "data self = d" and "noisemap self = n" and "bands self = bs"
    and "upsampling_factor self = s" and "psf self = gaussian_filter p 0.85"
    and "scale self = nanpercentile (flatten (h d)) 99.9"
    and "shape3 (h d) = shape3 (h n)" and "nbands (h d) = length bs" and "nbands p = length bs"
    and "shape2 (X self) = (srows (h d), scols (h d))"
    and "shape2 (Y self) = (srows (h d), scols (h d))"
    and "h' = (h(d := stack_div_scalar (h d) (scale self)))
                (n := stack_div_scalar ((h(d := stack_div_scalar (h d) (scale self))) n) (scale self))"
  using assms
  by (auto simp: init_eq meshgrid_def shape2_def length_arange split: if_splits)

lemma shape3_stack_div_scalar: "shape3 (stack_div_scalar a c) = shape3 a"
  by (simp add: stack_div_scalar_def shape3_def)

lemma init_data_shape:
  assumes "init h d n p s bs = (Some self, h')"
  shows "shape3 (h' (data self)) = shape3 (h d)"
  using init_Some(1,7,12) [OF assms]
  by (cases "d = n") (simp_all add: shape3_stack_div_scalar)

lemma nbands_gaussian_filter: "nbands (gaussian_filter a sigma) = nbands a"
  by (simp add: gaussian_filter_def Let_def)

lemma vecpsf_valid:
  assumes "upsampling_factor self \<noteq> 0" and "0 < nbands P"
    and "length xs = nbands P" and "length ys = nbands P" and "length amps = nbands P"
  shows "\<exists>q. vecpsf R self xs ys amps P = Some q \<and> shape3 q = (nbands P, nrows (X self), ncols (X self))"
proof -
  let ?T = "\<lambda>b. translate_and_scale_psf R self (xs ! b) (ys ! b) (amps ! b) (band P b)"
  have T: "?T b \<noteq> None" for b using assms(1) by (simp add: translate_and_scale_psf_cases)
  then have v: "vecpsf R self xs ys amps P = Some (stack_images (map (\<lambda>b. the (?T b)) [0..<nbands P]))"
    using assms by (simp add: vecpsf_eq)
  from T obtain i0 where "?T 0 = Some i0" by blast
  then have "nrows (the (?T 0)) = nrows (X self) \<and> ncols (the (?T 0)) = ncols (X self)"
    using translate_and_scale_psf_shape by fastforce
  then show ?thesis
    unfolding v using stack_images_shape [OF assms(2)] by simp
qed

lemma band_offset_valid:
  assumes "\<forall>c\<in>set (tl bs). (getitem ps (''offsets_'' @ c) \<bind> (\<lambda>v. index v k)) \<noteq> None"
    and "b < length bs"
  shows "band_offset ps bs k b \<noteq> None"
  using assms unfolding all_tl_conv by (cases "b = 0") (simp_all add: band_offset_def)

lemma band_positions_valid:
  assumes "bs \<noteq> []"
    and "\<forall>c\<in>set (tl bs). (getitem ps (''offsets_'' @ c) \<bind> (\<lambda>v. index v k)) \<noteq> None"
  shows "\<exists>xs. band_positions ps bs k x = Some xs \<and> length xs = length bs"
  using band_offset_valid [OF assms(2)] by (simp add: band_positions_eq [OF assms(1)])

lemma band_amplitudes_valid:
  assumes "\<forall>c\<in>set bs. (getitem ps c \<bind> (\<lambda>v. index v k)) \<noteq> None"
  shows "\<exists>xs. band_amplitudes ps bs k = Some xs \<and> length xs = length bs"
  using assms by (simp add: band_amplitudes_eq)

lemma model_no_galaxy_valid:
  assumes ne: "bands self \<noteq> []" and s: "upsampling_factor self \<noteq> 0"
    and np: "nbands (psf self) = length (bands self)"
    and v: "valid_no_galaxy (bands self) ps"
  shows "model_no_galaxy R self ps \<noteq> None"
proof -
  let ?bs = "bands self"
  from v obtain pos x1 y1 x2 y2 where pos: "getitem ps ''positions'' = Some pos"
    "unpack4 pos = Some (x1, y1, x2, y2)"
    unfolding valid_no_galaxy_def by (auto split: bind_splits)
  have amp: "\<forall>c\<in>set ?bs. (getitem ps c \<bind> (\<lambda>v. index v k)) \<noteq> None" if "k < 2" for k
    using v that unfolding valid_no_galaxy_def by blast
  have off: "\<forall>c\<in>set (tl ?bs). (getitem ps (''offsets_'' @ c) \<bind> (\<lambda>v. index v k)) \<noteq> None"
    if "k < 2" for k
    using v that unfolding valid_no_galaxy_def by blast
  obtain A1s where A1: "band_amplitudes ps ?bs 0 = Some A1s" "length A1s = length ?bs"
    using band_amplitudes_valid [OF amp [of 0]] by auto
  obtain A2s where A2: "band_amplitudes ps ?bs 1 = Some A2s" "length A2s = length ?bs"
    using band_amplitudes_valid [OF amp [of 1]] by auto
  obtain xs1 where xs1: "band_positions ps ?bs 0 x1 = Some xs1" "length xs1 = length ?bs"
    using band_positions_valid [OF ne off [of 0]] by auto
  obtain ys1 where ys1: "band_positions ps ?bs 1 y1 = Some ys1" "length ys1 = length ?bs"
    using band_positions_valid [OF ne off [of 1]] by auto
  obtain xs2 where xs2: "band_positions ps ?bs 0 x2 = Some xs2" "length xs2 = length ?bs"
    using band_positions_valid [OF ne off [of 0]] by auto
  obtain ys2 where ys2: "band_positions ps ?bs 1 y2 = Some ys2" "length ys2 = length ?bs"
    using band_positions_valid [OF ne off [of 1]] by auto
  have n0: "0 < nbands (psf self)" using ne np by simp
  obtain p1 where p1: "vecpsf R self xs1 ys1 A1s (psf self) = Some p1"
    "shape3 p1 = (nbands (psf self), nrows (X self), ncols (X self))"
    using vecpsf_valid [OF s n0, of xs1 ys1 A1s R] xs1 ys1 A1 np by auto
  obtain p2 where p2: "vecpsf R self xs2 ys2 A2s (psf self) = Some p2"
    "shape3 p2 = (nbands (psf self), nrows (X self), ncols (X self))"
    using vecpsf_valid [OF s n0, of xs2 ys2 A2s R] xs2 ys2 A2 np by auto
  have "stack_add p1 p2 \<noteq> None" using p1(2) p2(2) by (simp add: stack_add_def stack_zip_def)
  then show ?thesis
    using pos A1 A2 xs1 ys1 xs2 ys2 p1 p2 by (simp add: model_no_galaxy_def)
qed

lemma galaxy_only_render_valid:
  assumes ne: "bands self \<noteq> []" and v: "valid_with_galaxy (bands self) ps"
  shows "galaxy_only_render self ps \<noteq> None"
proof -
  let ?bs = "bands self"
  from v obtain g xg yg r_e ellip theta where gp: "galaxy_parameters ps = Some (g, xg, yg, r_e, ellip, theta)"
    and ie: "\<forall>c\<in>set ?bs. (getitem g (''I_e_'' @ c) \<bind> as_num) \<noteq> None"
    unfolding valid_with_galaxy_def by (auto split: option.splits)
  have off: "\<forall>c\<in>set (tl ?bs). (getitem ps (''offsets_'' @ c) \<bind> (\<lambda>v. index v k)) \<noteq> None"
    if "k < 2" for k
    using v that unfolding valid_with_galaxy_def valid_no_galaxy_def by blast
  have "band_galaxy self ps b \<noteq> None" if b: "b < length ?bs" for b
  proof -
    from ie b obtain vv i where "getitem g (''I_e_'' @ ?bs ! b) = Some vv" "as_num vv = Some i"
      by (fastforce split: bind_splits)
    moreover obtain ox where "band_offset ps ?bs 0 b = Some ox"
      using band_offset_valid [OF off [of 0] b] by auto
    moreover obtain oy where "band_offset ps ?bs 1 b = Some oy"
      using band_offset_valid [OF off [of 1] b] by auto
    ultimately show ?thesis unfolding band_galaxy_alt gp by simp
  qed
  then show ?thesis by (simp add: galaxy_only_render_def those_map_upt)
qed

lemma model_with_galaxy_valid:
  assumes ne: "bands self \<noteq> []" and s: "upsampling_factor self \<noteq> 0"
    and np: "nbands (psf self) = length (bands self)"
    and v: "valid_with_galaxy (bands self) ps"
  shows "model_with_galaxy R self ps \<noteq> None"
proof -
  from v have "valid_no_galaxy (bands self) ps" by (simp add: valid_with_galaxy_def)
  from model_no_galaxy_valid [OF ne s np this, of R]
  obtain m where m: "model_no_galaxy R self ps = Some m" by auto
  from galaxy_only_render_valid [OF ne v]
  obtain g where g: "galaxy_only_render self ps = Some g" by auto
  have "shape3 m = shape3 g"
    using model_no_galaxy_Some(3) [OF m] galaxy_only_render_Some(1) [OF g ne] by simp
  then have "stack_add m g \<noteq> None" by (simp add: stack_add_def stack_zip_def)
  then show ?thesis using m g by (simp add: model_with_galaxy_decompose)
qed

text \<open>
  C4. On a constructed model both variants return a stack of the shape of the data, and
  they do return one for every parameter dictionary of the right structure when there is at
  least one band and the supersampling factor is not 0.
\<close>

theorem model_shape_matches_data:
  assumes "init h d n p s bs = (Some self, h')"
  shows "(\<forall>m. model_no_galaxy R self ps = Some m \<longrightarrow> shape3 m = shape3 (h' (data self))) \<and>
         (\<forall>m. model_with_galaxy R self ps = Some m \<longrightarrow> shape3 m = shape3 (h' (data self))) \<and>
         (bs \<noteq> [] \<and> s \<noteq> 0 \<and> valid_no_galaxy bs ps \<longrightarrow> model_no_galaxy R self ps \<noteq> None) \<and>
         (bs \<noteq> [] \<and> s \<noteq> 0 \<and> valid_with_galaxy bs ps \<longrightarrow> model_with_galaxy R self ps \<noteq> None)"
proof -
  note i = init_Some [OF assms]
  have dsh: "shape3 (h' (data self)) = (length bs, srows (h d), scols (h d))"
    using init_data_shape [OF assms] i(8) by (simp add: shape3_def)
  have xsh: "nrows (X self) = srows (h d)" "ncols (X self) = scols (h d)"
    using i(10) by (simp_all add: shape2_def)
  have np: "nbands (psf self) = length (bands self)"
    using i(3,5,9) by (simp add: nbands_gaussian_filter)
  have a: "shape3 m = shape3 (h' (data self))" if "model_no_galaxy R self ps = Some m" for m
    using model_no_galaxy_Some(3) [OF that] dsh xsh i(3) by simp
  have b: "shape3 m = shape3 (h' (data self))" if "model_with_galaxy R self ps = Some m" for m
    using model_with_galaxy_Some [OF that] a by auto
  show ?thesis
    using a b model_no_galaxy_valid [of self ps R] model_with_galaxy_valid [of self ps R] np i(3,4)
    by auto
qed

section \<open>The rescaling happens once\<close>









section \<open>The smoothing of the PSF\<close>

lemma gaussian_kernel_radius_085: "gaussian_kernel_radius 0.85 = 3"
  by (simp add: gaussian_kernel_radius_def)

lemma sum_list_pos_nonempty:
  fixes f :: "'a \<Rightarrow> real"
  assumes "xs \<noteq> []" and "\<forall>x\<in>set xs. 0 < f x"
  shows "0 < sum_list (map f xs)"
proof (cases xs)
  case Nil
  with assms(1) show ?thesis by simp
next
  case (Cons a ys)
  have "0 \<le> sum_list (map f ys)"
    using assms(2) Cons by (intro sum_list_nonneg) (auto intro: less_imp_le)
  moreover have "0 < f a" using assms(2) Cons by simp
  ultimately show ?thesis using Cons by simp
qed

lemma sum_list_mult_nonneg:
  fixes w g :: "'a \<Rightarrow> real"
  assumes "\<forall>k. 0 \<le> w k" and "\<forall>k. 0 \<le> g k"
  shows "0 \<le> (\<Sum>k\<leftarrow>ks. w k * g k)"
  using assms by (induction ks) simp_all

lemma sum_list_mult_pos:
  fixes w g :: "'a \<Rightarrow> real"
  assumes "\<forall>k. 0 < w k" and "\<forall>k. 0 \<le> g k" and "k0 \<in> set ks" and "0 < g k0"
  shows "0 < (\<Sum>k\<leftarrow>ks. w k * g k)"
  using assms(3)
proof (induction ks)
  case Nil
  then show ?case by simp
next
  case (Cons a ks)
  have rest: "0 \<le> (\<Sum>k\<leftarrow>ks. w k * g k)"
    using assms(1,2) by (intro sum_list_mult_nonneg) (auto intro: less_imp_le)
  have head: "0 \<le> w a * g a" using assms(1,2) by (simp add: less_imp_le)
  show ?case
  proof (cases "k0 = a")
    case True
    then have "0 < w a * g a" using assms(1,4) by simp
    with rest show ?thesis by simp
  next
    case False
    with Cons have "0 < (\<Sum>k\<leftarrow>ks. w k * g k)" by simp
    with head show ?thesis by simp
  qed
qed

lemma gaussian_kernel1d_pos: "0 \<le> lw \<Longrightarrow> 0 < gaussian_kernel1d sigma lw k"
  unfolding gaussian_kernel1d_def
  by (intro divide_pos_pos sum_list_pos_nonempty) (auto simp: gaussian_phi_def)

lemma gaussian_filter1d_pos:
  assumes "\<forall>i. 0 \<le> line i" and "0 < line (reflect_index n (int i + k0))" and "\<bar>k0\<bar> \<le> 3"
  shows "0 < gaussian_filter1d 0.85 n line i"
proof -
  have w: "\<forall>k. 0 < gaussian_kernel1d 0.85 3 k" by (simp add: gaussian_kernel1d_pos)
  have k0: "k0 \<in> set [- 3..3]" using assms(3) by auto
  have "0 < (\<Sum>k\<leftarrow>[- 3..3]. gaussian_kernel1d 0.85 3 k * line (reflect_index n (int i + k)))"
    using w _ k0 assms(2) by (rule sum_list_mult_pos) (simp add: assms(1))
  then show ?thesis
    by (simp only: gaussian_filter1d_def gaussian_kernel_radius_085 Let_def correlate1d_def)
qed

lemma gaussian_filter1d_nonneg:
  assumes "\<forall>i. 0 \<le> line i"
  shows "0 \<le> gaussian_filter1d 0.85 n line i"
proof -
  have w: "\<forall>k. 0 \<le> gaussian_kernel1d 0.85 3 k"
    by (simp add: gaussian_kernel1d_pos less_imp_le)
  have "0 \<le> (\<Sum>k\<leftarrow>[- 3..3]. gaussian_kernel1d 0.85 3 k * line (reflect_index n (int i + k)))"
    using w by (rule sum_list_mult_nonneg) (simp add: assms)
  then show ?thesis
    by (simp only: gaussian_filter1d_def gaussian_kernel_radius_085 Let_def correlate1d_def)
qed

lemma gaussian_filter1d_zero: "gaussian_filter1d sigma n (\<lambda>i. 0) i = 0"
  by (simp add: gaussian_filter1d_def Let_def correlate1d_def)

lemma blur_model_psf: "psf blur_model = gaussian_filter blur_narrowpsf 0.85"
  by (simp add: blur_model_def init_eq ones_def shape3_def blur_narrowpsf_def)

text \<open>
  C8, at a failing input. The constructor hands the whole three-dimensional PSF stack to the
  Gaussian filter, which then also smooths along the band axis: with a first band of 1 and a
  second band of 0, the second band of the model's PSF is positive, while the second band
  smoothed on its own is 0.
\<close>

theorem gaussian_filter_mixes_bands:
  "0 < pix (band (psf blur_model) 1) 0 0 \<and>
   pix (gaussian_filter2d (band blur_narrowpsf 1) 0.85) 0 0 = 0"
proof
  let ?a = "blur_narrowpsf"
  define a0 where "a0 = (\<lambda>b i j. gaussian_filter1d 0.85 (nbands ?a) (\<lambda>b'. spix ?a b' i j) b)"
  define a1 where "a1 = (\<lambda>b i j. gaussian_filter1d 0.85 (srows ?a) (\<lambda>i'. a0 b i' j) i)"
  define a2 where "a2 = (\<lambda>b i j. gaussian_filter1d 0.85 (scols ?a) (\<lambda>j'. a1 b i j') j)"
  have g: "spix (gaussian_filter ?a 0.85) = a2"
    by (simp add: gaussian_filter_def Let_def a0_def a1_def a2_def)
  have in0: "0 \<le> spix ?a b i j" for b i j by (simp add: blur_narrowpsf_def)
  have p0: "0 < a0 1 i j" for i j
    unfolding a0_def
    by (rule gaussian_filter1d_pos [where ?k0.0 = "-1"])
       (simp_all add: blur_narrowpsf_def reflect_index_def)
  have n0: "0 \<le> a0 b i j" for b i j
    unfolding a0_def by (rule gaussian_filter1d_nonneg) (simp add: in0)
  have p1: "0 < a1 1 i j" for i j
    unfolding a1_def using n0 p0
    by (intro gaussian_filter1d_pos [where ?k0.0 = 0]) simp_all
  have n1: "0 \<le> a1 b i j" for b i j
    unfolding a1_def by (rule gaussian_filter1d_nonneg) (simp add: n0)
  have p2: "0 < a2 1 i j" for i j
    unfolding a2_def using n1 p1
    by (intro gaussian_filter1d_pos [where ?k0.0 = 0]) simp_all
  have "pix (band (psf blur_model) 1) 0 0 = a2 1 0 0"
    unfolding band_def blur_model_psf g by simp
  then show "0 < pix (band (psf blur_model) 1) 0 0"
    using p2 by simp
  show "pix (gaussian_filter2d (band blur_narrowpsf 1) 0.85) 0 0 = 0"
    by (simp add: gaussian_filter2d_def Let_def band_def blur_narrowpsf_def gaussian_filter1d_zero)
qed

section \<open>The placement of the PSF\<close>

text \<open>
  The centre of the PSF, at \<open>n / 2\<close> in its own grid, is put at the output size divided by the
  supersampling factor, plus the offset: at the centre of the output grid when the factor is 2.
\<close>

lemma psf_center_lands:
  assumes "s \<noteq> 0" and "psf_translation (N, M) s n dx dy = Some (ty, tx)"
  shows "output_location (1 / real_of_int s) ty (real n / 2) = real N / real_of_int s + dy"
    and "output_location (1 / real_of_int s) tx (real n / 2) = real M / real_of_int s + dx"
  using assms by (auto simp: psf_translation_def output_location_def Let_def field_simps)

lemma shifted_model_fields:
  "upsampling_factor shifted_model = 1" "shape2 (X shifted_model) = (5, 5)"
  "scols (psf shifted_model) = 5"
  by (simp_all add: shifted_model_def init_eq ones_def shape3_def meshgrid_def shape2_def
        arange_def gaussian_filter_def Let_def)

text \<open>
  C1, at a failing input. With supersampling factor 1, a PSF of 5 by 5 pixels and a grid of 5
  by 5 pixels, a point source with offsets 0 is resampled at scale 1 with a translation of 2.5
  pixels along both axes: the centre of the PSF, at 2.5, is put at 5, the border of the grid,
  not at its centre 2.5. With factor 3 and a PSF of 15 by 15 pixels the centre, at 7.5, is put
  at 5/3, inside pixel 1 and not the centre pixel 2.
\<close>

theorem zero_offset_not_centred:
  "translate_and_scale_psf R shifted_model 0 0 A (band (psf shifted_model) 0) =
     Some (image_scale A (scale_and_translate R (band (psf shifted_model) 0) (5, 5) (1, 1) (5 / 2, 5 / 2)))
   \<and> output_location 1 (5 / 2) (5 / 2) = 5
   \<and> psf_translation (5, 5) 3 15 0 0 = Some (- 5 / 6, - 5 / 6)
   \<and> output_location (1 / 3) (- 5 / 6) (15 / 2) = 5 / 3"
  by (simp add: translate_and_scale_psf_eq shifted_model_fields psf_translation_def Let_def
        band_def output_location_def)

section \<open>The reduced chi-square\<close>

lemma flatten_ones_133: "flatten (ones (Suc 0) 3 3) = [1, 1, 1, 1, 1, 1, 1, 1, 1]"
  by (simp add: flatten_def ones_def upt_conv_Cons)

lemma nanpercentile_ones: "nanpercentile [1, 1, 1, 1, 1, 1, 1, 1, 1] 99.9 = 1"
  by (simp add: nanpercentile_def Let_def)

lemma init_chi: "init (\<lambda>a. ones 1 3 3) 0 1 (ones 1 4 4) 2 [''g''] = (Some chi_model, chi_store)"
  by (simp add: chi_model_def chi_store_def init_eq ones_def shape3_def)

lemma chi_scale: "scale chi_model = 1"
proof -
  have "scale chi_model = nanpercentile (flatten (ones 1 3 3)) 99.9"
    using init_Some(6) [OF init_chi] .
  also have "\<dots> = 1" by (simp add: flatten_ones_133 nanpercentile_ones)
  finally show ?thesis .
qed

lemma chi_fields:
  "bands chi_model = [''g'']" "upsampling_factor chi_model = 2" "data chi_model = 0"
  "noisemap chi_model = 1" "nbands (psf chi_model) = 1" "shape2 (X chi_model) = (3, 3)"
  using init_Some [OF init_chi]
  by (simp_all add: nbands_gaussian_filter ones_def)

lemma chi_store_values:
  "chi_store 0 = ones 1 3 3" "chi_store (Suc 0) = ones 1 3 3"
  by (simp_all add: init_Some(12) [OF init_chi] chi_scale stack_div_scalar_def ones_def)

lemma chi_valid: "valid_no_galaxy [''g''] chi_params"
  by (simp add: valid_no_galaxy_def chi_params_def getitem_def less_Suc_eq numeral_2_eq_2)

lemma chi_model_zero:
  "\<exists>m. model_no_galaxy R chi_model chi_params = Some m \<and> shape3 m = (1, 3, 3)
       \<and> spix m 0 = (\<lambda>i j. 0)"
proof -
  have "model_no_galaxy R chi_model chi_params \<noteq> None"
    by (rule model_no_galaxy_valid) (simp_all add: chi_fields chi_valid)
  then obtain m where m: "model_no_galaxy R chi_model chi_params = Some m" by auto
  have sh: "shape3 m = (1, 3, 3)"
    using model_no_galaxy_Some(3) [OF m] chi_fields(1,6) by (simp add: shape2_def)
  have "Some (band m 0) = band_point_sources R chi_model chi_params 0"
    using model_no_galaxy_Some(4) [OF m] by (simp add: chi_fields)
  then have "pix (band m 0) = (\<lambda>i j. 0)"
    by (simp add: band_point_sources_def chi_params_def getitem_def chi_fields band_offset_def
          translate_and_scale_psf_cases image_add_def image_scale_def)
  then have "spix m 0 = (\<lambda>i j. 0)" by (simp add: band_def)
  with m sh show ?thesis by blast
qed

text \<open>
  C2, at a failing input. On 9 pixels with residuals of squared sum 9 and a dictionary of two
  keys holding six scalars, the reduced chi-square is 9 / (9 - 2): the divisor counts the keys
  of the dictionary, not its scalars. This holds for every resampler.
\<close>

theorem reduced_chi2_divides_by_key_count:
  "reduced_chi2_no_galaxy R chi_store chi_model chi_params = Some (9 / (9 - 2)) \<and>
   map_option (\<lambda>r. sum_list (map (\<lambda>x. x\<^sup>2) r))
     (residuals_no_galaxy R chi_store chi_model chi_params) = Some 9 \<and>
   size3 (chi_store (data chi_model)) = 9 \<and>
   py_len chi_params = 2 \<and> n_scalars (Dct chi_params) = 6"
proof -
  obtain m where m: "model_no_galaxy R chi_model chi_params = Some m"
    and sh: "shape3 m = (1, 3, 3)" and z: "spix m 0 = (\<lambda>i j. 0)"
    using chi_model_zero by blast
  have r: "residuals_no_galaxy R chi_store chi_model chi_params
           = Some [- 1, - 1, - 1, - 1, - 1, - 1, - 1, - 1, - 1]"
    using sh z
    by (simp add: residuals_no_galaxy_def m chi_fields chi_store_values stack_sub_def
          stack_divide_def stack_zip_def shape3_def ones_def flatten_def upt_conv_Cons)
  have sz: "size3 (chi_store (data chi_model)) = 9"
    by (simp add: chi_fields chi_store_values size3_def ones_def)
  have l: "py_len chi_params = 2" by (simp add: py_len_def chi_params_def)
  have n: "n_scalars (Dct chi_params) = 6" by (simp add: chi_params_def)
  have c: "reduced_chi2_no_galaxy R chi_store chi_model chi_params = Some (9 / (9 - 2))"
    by (simp add: reduced_chi2_no_galaxy_def r sz l Let_def)
  have q: "map_option (\<lambda>r. sum_list (map (\<lambda>x. x\<^sup>2) r))
     (residuals_no_galaxy R chi_store chi_model chi_params) = Some 9"
    by (simp add: r)
  show ?thesis by (intro conjI c q sz l n)
qed

section \<open>The theorems at the example model\<close>

lemma init_demo:
  "init (\<lambda>a. ones 2 3 3) 0 1 (ones 2 4 4) 2 [''g'', ''r''] = (Some demo_model, demo_store)"
  by (simp add: demo_model_def demo_store_def init_eq ones_def shape3_def)

lemma demo_fields:
  "bands demo_model = [''g'', ''r'']" "upsampling_factor demo_model = 2"
  "nbands (psf demo_model) = 2" "shape2 (X demo_model) = (3, 3)"
  using init_Some [OF init_demo]
  by (simp_all add: nbands_gaussian_filter ones_def)

lemma demo_grid: "pix (X demo_model) 2 2 = 0" "pix (Y demo_model) 2 2 = 0"
  by (simp_all add: demo_model_def init_eq ones_def shape3_def meshgrid_def arange_def
        upto.simps)

lemma demo_valid: "valid_no_galaxy [''g'', ''r''] demo_params" "valid_with_galaxy [''g'', ''r''] demo_params"
  by (simp_all add: valid_with_galaxy_def valid_no_galaxy_def galaxy_parameters_def demo_params_def
        getitem_def less_Suc_eq numeral_2_eq_2)

text \<open>
  C5 at the grid point (0, 0) of the example model, with the centre at (-3, -4) and effective
  radius 5.
\<close>

theorem sersic_on_effective_radius_witness:
  "(5::real) \<noteq> 0 \<and>
   sqrt ((pix (X demo_model) 2 2 - (- 3))\<^sup>2 + (pix (Y demo_model) 2 2 - (- 4))\<^sup>2) = 5 \<and>
   pix (elliptical_sersic_profile demo_model 7 5 (- 3) (- 4) 0 30) 2 2 = 7"
proof -
  have "sqrt ((3::real)\<^sup>2 + 4\<^sup>2) = sqrt (5\<^sup>2)" by simp
  then have d: "sqrt ((pix (X demo_model) 2 2 - (- 3))\<^sup>2 + (pix (Y demo_model) 2 2 - (- 4))\<^sup>2) = 5"
    unfolding demo_grid by simp
  have n: "(5::real) \<noteq> 0" by simp
  from sersic_on_effective_radius [of demo_model 7 5 "- 3" "- 4" 0 30 2 2] n d
  show ?thesis by blast
qed

text \<open>
  C4 at the example model and its parameters.
\<close>

theorem model_shape_matches_data_witness:
  "init (\<lambda>a. ones 2 3 3) 0 1 (ones 2 4 4) 2 [''g'', ''r''] = (Some demo_model, demo_store) \<and>
   valid_with_galaxy [''g'', ''r''] demo_params \<and>
   (\<forall>R. \<exists>m. model_no_galaxy R demo_model demo_params = Some m \<and> shape3 m = (2, 3, 3)) \<and>
   (\<forall>R. \<exists>m. model_with_galaxy R demo_model demo_params = Some m \<and> shape3 m = (2, 3, 3)) \<and>
   shape3 (demo_store (data demo_model)) = (2, 3, 3)"
proof -
  have sh: "shape3 (demo_store (data demo_model)) = (2, 3, 3)"
    using init_data_shape [OF init_demo] by (simp add: ones_def shape3_def)
  have "\<exists>m. model_no_galaxy R demo_model demo_params = Some m \<and> shape3 m = (2, 3, 3)"
       "\<exists>m. model_with_galaxy R demo_model demo_params = Some m \<and> shape3 m = (2, 3, 3)" for R
    using model_shape_matches_data [OF init_demo, of R demo_params] demo_valid sh by auto
  with init_demo demo_valid sh show ?thesis by blast
qed

text \<open>
  C6 at the second band of the example model, whose offset is (1/2, 1/4).
\<close>

theorem reference_band_carries_no_offset_witness:
  "1 < length (bands demo_model) \<and>
   band_offset demo_params (bands demo_model) 0 0 = Some 0 \<and>
   band_offset demo_params (bands demo_model) 0 1 = Some (1 / 2) \<and>
   band_offset demo_params (bands demo_model) 1 1 = Some (1 / 4) \<and>
   (\<forall>R. \<exists>m i1 i2.
      model_no_galaxy R demo_model demo_params = Some m \<and>
      translate_and_scale_psf R demo_model (1 + 1 / 2) (2 + 1 / 4) 30 (band (psf demo_model) 1) = Some i1 \<and>
      translate_and_scale_psf R demo_model (- 1 + 1 / 2) (- 2 + 1 / 4) 40 (band (psf demo_model) 1) = Some i2 \<and>
      band m 1 = image_add i1 i2)"
proof -
  have b: "1 < length (bands demo_model)" by (simp add: demo_fields)
  have o: "band_offset demo_params (bands demo_model) 0 0 = Some 0"
    "band_offset demo_params (bands demo_model) 0 1 = Some (1 / 2)"
    "band_offset demo_params (bands demo_model) 1 1 = Some (1 / 4)"
    by (simp_all add: band_offset_def demo_fields demo_params_def getitem_def)
  have "\<exists>m i1 i2.
      model_no_galaxy R demo_model demo_params = Some m \<and>
      translate_and_scale_psf R demo_model (1 + 1 / 2) (2 + 1 / 4) 30 (band (psf demo_model) 1) = Some i1 \<and>
      translate_and_scale_psf R demo_model (- 1 + 1 / 2) (- 2 + 1 / 4) 40 (band (psf demo_model) 1) = Some i2 \<and>
      band m 1 = image_add i1 i2" for R
  proof -
    have "model_no_galaxy R demo_model demo_params \<noteq> None"
      by (rule model_no_galaxy_valid) (simp_all add: demo_fields demo_valid)
    then obtain m where m: "model_no_galaxy R demo_model demo_params = Some m" by auto
    from reference_band_carries_no_offset [OF b, of demo_params 0 R] m
    obtain x1 y1 x2 y2 v a1 a2 ox oy i1 i2 where
      "getitem demo_params ''positions'' \<bind> unpack4 = Some (x1, y1, x2, y2)"
      "getitem demo_params (bands demo_model ! 1) = Some v" "index v 0 = Some a1" "index v 1 = Some a2"
      "band_offset demo_params (bands demo_model) 0 1 = Some ox"
      "band_offset demo_params (bands demo_model) 1 1 = Some oy"
      "translate_and_scale_psf R demo_model (x1 + ox) (y1 + oy) a1 (band (psf demo_model) 1) = Some i1"
      "translate_and_scale_psf R demo_model (x2 + ox) (y2 + oy) a2 (band (psf demo_model) 1) = Some i2"
      "band m 1 = image_add i1 i2"
      by blast
    moreover from this(1-6) have "x1 = 1" "y1 = 2" "x2 = - 1" "y2 = - 2" "a1 = 30" "a2 = 40"
       "ox = 1 / 2" "oy = 1 / 4"
      by (auto simp: band_offset_def demo_fields demo_params_def getitem_def)
    ultimately show ?thesis using m by auto
  qed
  with b o show ?thesis by blast
qed


text \<open>
  C10 at the first band of the example model, with amplitude 3.
\<close>

theorem translate_and_scale_psf_homogeneous_witness:
  "\<forall>R. \<exists>v u. translate_and_scale_psf R demo_model 0 0 3 (band (psf demo_model) 0) = Some v \<and>
     translate_and_scale_psf R demo_model 0 0 1 (band (psf demo_model) 0) = Some u \<and>
     shape2 v = shape2 u \<and> (\<forall>i j. pix v i j = 3 * pix u i j)"
proof
  fix R
  obtain v where v: "translate_and_scale_psf R demo_model 0 0 3 (band (psf demo_model) 0) = Some v"
    by (simp add: translate_and_scale_psf_cases demo_fields)
  obtain u where u: "translate_and_scale_psf R demo_model 0 0 1 (band (psf demo_model) 0) = Some u"
    by (simp add: translate_and_scale_psf_cases demo_fields)
  from translate_and_scale_psf_homogeneous [of R demo_model 0 0 3 "band (psf demo_model) 0"] v u
  show "\<exists>v u. translate_and_scale_psf R demo_model 0 0 3 (band (psf demo_model) 0) = Some v \<and>
     translate_and_scale_psf R demo_model 0 0 1 (band (psf demo_model) 0) = Some u \<and>
     shape2 v = shape2 u \<and> (\<forall>i j. pix v i j = 3 * pix u i j)"
    by blast
qed

text \<open>
  C9, as amended, at one band with a PSF stack of one band, and of two.
\<close>

theorem init_succeeds_iff_witness:
  "fst (init (\<lambda>a. ones 1 3 3) 0 1 (ones 1 4 4) 2 [''g'']) \<noteq> None \<and>
   fst (init (\<lambda>a. ones 1 3 3) 0 1 (ones 2 4 4) 2 [''g'']) = None"
  using init_succeeds_iff [of "\<lambda>a. ones 1 3 3" 0 1 "ones 1 4 4" 2 "[''g'']"]
        init_succeeds_iff [of "\<lambda>a. ones 1 3 3" 0 1 "ones 2 4 4" 2 "[''g'']"]
  by (simp add: ones_def shape3_def)

end
